theory Spec2Isabelle
  imports Main "HOL-Library.AList" "HOL-Library.Sublist"
begin

section \<open>The Icinga2 state module (salt/states/icinga2.py)\<close>

text \<open>
  The module has five state functions: \<open>generate_ticket\<close>, \<open>generate_cert\<close>,
  \<open>save_cert\<close>, \<open>request_cert\<close> and \<open>node_setup\<close>. Each of them builds the dictionary
  \<open>ret\<close>, probes the minion (files, grains), honours \<open>__opts__["test"]\<close> and calls one
  function of the \<open>icinga2\<close> execution module through \<open>__salt__\<close>.

  The embedding passes the minion's state explicitly: a function takes the world and
  returns the new world next to its outcome. The outcome is either the dictionary
  \<open>ret\<close> or the Python exception that left the function.
\<close>

subsection \<open>Values and results\<close>

text \<open>
  Exceptions that the body of \<open>generate_ticket\<close> can raise: \<open>TypeError\<close> from
  \<open>key in grain_value\<close> and \<open>grain_value[key] = ticket\<close> on a grain that holds no
  dictionary, and \<open>AttributeError\<close> from \<open>salt.utils.files.fopen\<close> on line 142, where
  \<open>salt\<close> is the parameter of line 39 and not the module.
\<close>

datatype py_error = TypeError | AttributeError

text \<open>
  A grain value: a string, a number (standing for every value that is neither a
  container nor a string) or a dictionary with string keys, kept in insertion order.
\<close>

datatype gval = VStr string | VInt int | VDict "(string \<times> gval) list"

text \<open>What an \<open>icinga2.*\<close> execution function returns: \<open>{"stdout": ..., "retcode": ...}\<close>.\<close>

record cmd_result =
  stdout :: string
  retcode :: int

text \<open>The calls of the execution module, with their arguments.\<close>

datatype call =
    Icinga2_generate_ticket string "string option"
  | Icinga2_generate_cert string
  | Icinga2_save_cert string string
  | Icinga2_request_cert string string string string
  | Icinga2_node_setup string string string

text \<open>
  The dictionary \<open>ret = {"name": ..., "changes": {}, "result": True, "comment": ""}\<close>.
  \<open>result\<close> is \<open>True\<close>, \<open>False\<close> or \<open>None\<close>.
\<close>

record ret =
  name :: string
  changes :: "(string \<times> string) list"
  result :: "bool option"
  comment :: string

subsection \<open>The minion: files, grains and the trace of collaborator calls\<close>

datatype event =
    IsFile string
  | GrainsLs
  | GrainsGet string
  | GrainsSetval string gval
  | Exec call

record world =
  files :: "string \<rightharpoonup> string"
  grains :: "string \<rightharpoonup> gval"
  trace :: "event list"

text \<open>
  What a state function reads and does not change: \<open>__opts__["test"]\<close>, the directory
  returned by \<open>get_certs_path()\<close> (imported from \<open>salt.utils.icinga2\<close>, taken as a
  parameter) and the behaviour of the execution module (the result of a call and the
  files it leaves behind).
\<close>

record env =
  opts_test :: bool
  certs_path :: string
  executor :: "call \<Rightarrow> (string \<rightharpoonup> string) \<Rightarrow> cmd_result \<times> (string \<rightharpoonup> string)"

text \<open>
  Events that are more than a probe: executor calls and grain writes. The module itself
  never writes a file (see \<open>fopen_write\<close>); what the executor does to the files shows in
  \<open>files\<close>.
\<close>

fun is_effect :: "event \<Rightarrow> bool" where
  "is_effect (Exec c) = True"
| "is_effect (GrainsSetval g v) = True"
| "is_effect ev = False"

definition effects :: "world \<Rightarrow> event list" where
  "effects w = filter is_effect (trace w)"

subsection \<open>Python's truth value, \<open>str.format\<close>, \<open>in\<close> and item assignment\<close>

text \<open>An optional string argument is false when it is \<open>None\<close> or \<open>""\<close>.\<close>

definition truthy :: "string option \<Rightarrow> bool" where
  "truthy s = (case s of None \<Rightarrow> False | Some v \<Rightarrow> v \<noteq> [])"

text \<open>\<open>"{}".format(x)\<close> of an optional string; on a true argument it is the string itself.\<close>

definition str :: "string option \<Rightarrow> string" where
  "str s = (case s of None \<Rightarrow> ''None'' | Some v \<Rightarrow> v)"

text \<open>
  \<open>key in grain_value\<close>: a key of the dictionary, a substring of the string, and
  \<open>TypeError\<close> on a value that is not iterable.
\<close>

fun py_in :: "string \<Rightarrow> gval \<Rightarrow> py_error + bool" where
  "py_in k (VDict d) = Inr (k \<in> fst ` set d)"
| "py_in k (VStr s) = Inr (sublist k s)"
| "py_in k (VInt n) = Inl TypeError"

text \<open>\<open>grain_value[key] = ticket\<close>: only a dictionary supports item assignment.\<close>

fun py_setitem :: "gval \<Rightarrow> string \<Rightarrow> gval \<Rightarrow> py_error + gval" where
  "py_setitem (VDict d) k v = Inr (VDict (AList.update k v d))"
| "py_setitem (VStr s) k v = Inl TypeError"
| "py_setitem (VInt n) k v = Inl TypeError"

subsection \<open>The collaborators\<close>

text \<open>\<open>os.path.isfile(path)\<close>.\<close>

definition isfile :: "string \<Rightarrow> world \<Rightarrow> bool \<times> world" where
  "isfile p w = (files w p \<noteq> None, w\<lparr>trace := trace w @ [IsFile p]\<rparr>)"

text \<open>
  Modelled from the spec: the grain store behind \<open>__salt__["grains.ls"]\<close>,
  \<open>__salt__["grains.get"]\<close> and \<open>__salt__["grains.setval"]\<close> (the module
  \<open>salt.modules.grains\<close>), as the Key-Value Store with \<open>list_keys() -> set<string>\<close>,
  \<open>get(key) -> value\<close> and \<open>set(key, value) -> void\<close>. \<open>get\<close> on a missing grain gives
  the empty string.
\<close>

definition grains_ls :: "world \<Rightarrow> string set \<times> world" where
  "grains_ls w = (dom (grains w), w\<lparr>trace := trace w @ [GrainsLs]\<rparr>)"

definition grains_get :: "string \<Rightarrow> world \<Rightarrow> gval \<times> world" where
  "grains_get g w =
     ((case grains w g of None \<Rightarrow> VStr [] | Some v \<Rightarrow> v),
      w\<lparr>trace := trace w @ [GrainsGet g]\<rparr>)"

definition grains_setval :: "string \<Rightarrow> gval \<Rightarrow> world \<Rightarrow> world" where
  "grains_setval g v w =
     w\<lparr>grains := (grains w)(g \<mapsto> v), trace := trace w @ [GrainsSetval g v]\<rparr>"

text \<open>
  A call \<open>__salt__["icinga2.<function>"](...)\<close>: the executor answers from the call and
  the files it finds, and may leave files behind.
\<close>

definition salt_call :: "env \<Rightarrow> call \<Rightarrow> world \<Rightarrow> cmd_result \<times> world" where
  "salt_call e c w =
     (let (res, fs) = executor e c (files w)
      in (res, w\<lparr>files := fs, trace := trace w @ [Exec c]\<rparr>))"

text \<open>
  Lines 142 and 143:
  \<open>with salt.utils.files.fopen(output, "w") as output_file: output_file.write(...)\<close>.
  Inside \<open>generate_ticket\<close> the name \<open>salt\<close> is the parameter of line 39 (the shared
  secret: \<open>None\<close> or a string), which hides the module \<open>salt\<close> imported on lines 25 and
  26. Neither \<open>None\<close> nor a string has an attribute \<open>utils\<close>, so evaluating \<open>salt.utils\<close>
  raises \<open>AttributeError\<close> before any file is opened: nothing is written, whatever the
  secret, the path and the ticket are.
\<close>

definition fopen_write ::
  "string option \<Rightarrow> string \<Rightarrow> string \<Rightarrow> world \<Rightarrow> (py_error + unit) \<times> world" where
  "fopen_write salt p s w = (Inl AttributeError, w)"

subsection \<open>\<open>generate_ticket\<close>\<close>

text \<open>
  Lines 83 to 86 and again 131 to 134:
  \<open>grain_value = grains.get(grain) if grain in grains.ls() else {}\<close>.
\<close>

definition read_grain_value :: "string \<Rightarrow> world \<Rightarrow> gval \<times> world" where
  "read_grain_value g w =
     (let (ks, w1) = grains_ls w
      in if g \<in> ks then grains_get g w1 else (VDict [], w1))"

text \<open>
  Lines 120 to 147, the part after the comment \<open># Executing the command.\<close>: the ticket
  is the executor's \<open>stdout\<close> whatever the return code is; the comment is set only on
  return code 0; then the ticket is stored where \<open>output\<close> says.
\<close>

definition ticket_execute ::
  "string \<Rightarrow> string option \<Rightarrow> string option \<Rightarrow> string option \<Rightarrow> string option \<Rightarrow>
   ret \<Rightarrow> env \<Rightarrow> world \<Rightarrow> (py_error + ret) \<times> world" where
  "ticket_execute nm output grain key salt ret0 e w =
     (let (ticket_res, w1) = salt_call e (Icinga2_generate_ticket nm salt) w;
          ticket = stdout ticket_res;
          ret1 = (if retcode ticket_res = 0 then ret0\<lparr>comment := ticket\<rparr> else ret0)
      in if output = Some ''grain'' then
           (if truthy grain \<and> \<not> truthy key then
              (Inr (ret1\<lparr>changes := AList.update ''ticket''
                       (''Executed. Output into grain: '' @ str grain) (changes ret1)\<rparr>),
               grains_setval (str grain) (VStr ticket) w1)
            else if truthy grain then
              (let (grain_value, w2) = read_grain_value (str grain) w1
               in case py_setitem grain_value (str key) (VStr ticket) of
                    Inl err \<Rightarrow> (Inl err, w2)
                  | Inr grain_value' \<Rightarrow>
                      (Inr (ret1\<lparr>changes := AList.update ''ticket''
                               (''Executed. Output into grain: '' @ str grain @ '':'' @ str key)
                               (changes ret1)\<rparr>),
                       grains_setval (str grain) grain_value' w2))
            else (Inr ret1, w1))
         else if truthy output then
           (let ret2 = ret1\<lparr>changes := AList.update ''ticket''
                          (''Executed. Output into '' @ str output) (changes ret1)\<rparr>
            in case fopen_write salt (str output) ticket w1 of
                 (Inl err, w2) \<Rightarrow> (Inl err, w2)
               | (Inr u, w2) \<Rightarrow> (Inr ret2, w2))
         else
           (Inr (ret1\<lparr>changes := AList.update ''ticket'' ''Executed'' (changes ret1)\<rparr>), w1))"

text \<open>
  The whole function. \<open>not overwrite and P\<close> evaluates \<open>P\<close> only when \<open>overwrite\<close> is
  false, so the probe is made (and can raise) only then.
\<close>

definition generate_ticket ::
  "string \<Rightarrow> string option \<Rightarrow> string option \<Rightarrow> string option \<Rightarrow> bool \<Rightarrow> string option \<Rightarrow>
   env \<Rightarrow> world \<Rightarrow> (py_error + ret) \<times> world" where
  "generate_ticket nm output grain key overwrite salt e w =
     (let ret0 = \<lparr>name = nm, changes = [], result = Some True, comment = []\<rparr>
      in if output = Some ''grain'' then
           (if truthy grain \<and> \<not> truthy key then
              (let (present, w1) =
                     (if \<not> overwrite
                      then (let (ks, w') = grains_ls w in (str grain \<in> ks, w'))
                      else (False, w))
               in if present then
                    (Inr (ret0\<lparr>comment :=
                       ''No execution needed. Grain '' @ str grain @ '' already set''\<rparr>), w1)
                  else if opts_test e then
                    (Inr (ret0\<lparr>result := None, comment :=
                       ''Ticket generation would be executed, storing result in grain: ''
                         @ str grain\<rparr>), w1)
                  else ticket_execute nm output grain key salt ret0 e w1)
            else if truthy grain then
              (let (grain_value, w1) = read_grain_value (str grain) w
               in case (if \<not> overwrite then py_in (str key) grain_value else Inr False) of
                    Inl err \<Rightarrow> (Inl err, w1)
                  | Inr present \<Rightarrow>
                      if present then
                        (Inr (ret0\<lparr>comment :=
                           ''No execution needed. Grain '' @ str grain @ '':'' @ str key
                             @ '' already set''\<rparr>), w1)
                      else if opts_test e then
                        (Inr (ret0\<lparr>result := None, comment :=
                           ''Ticket generation would be executed, storing result in grain: ''
                             @ str grain @ '':'' @ str key\<rparr>), w1)
                      else ticket_execute nm output grain key salt ret0 e w1)
            else
              (Inr (ret0\<lparr>result := Some False, comment :=
                 ''Error: output type '' @ [CHR 0x27] @ ''grain'' @ [CHR 0x27]
                   @ '' needs the grain parameter'' @ [CHR 0x0A]\<rparr>), w))
         else if truthy output then
           (let (present, w1) =
                  (if \<not> overwrite then isfile (str output) w else (False, w))
            in if present then
                 (Inr (ret0\<lparr>comment :=
                    ''No execution needed. File '' @ str output @ '' already set''\<rparr>), w1)
               else if opts_test e then
                 (Inr (ret0\<lparr>result := None, comment :=
                    ''Ticket generation would be executed, storing result in file: ''
                      @ str output\<rparr>), w1)
               else ticket_execute nm output grain key salt ret0 e w1)
         else if opts_test e then
           (Inr (ret0\<lparr>result := None, comment :=
              ''Ticket generation would be executed, not storing result''\<rparr>), w)
         else ticket_execute nm output grain key salt ret0 e w)"

subsection \<open>\<open>generate_cert\<close>, \<open>save_cert\<close>, \<open>request_cert\<close>, \<open>node_setup\<close>\<close>

text \<open>
  \<open>os.path.isfile(a) and os.path.isfile(b)\<close> probes \<open>b\<close> only when \<open>a\<close> is a file.
\<close>

definition generate_cert :: "string \<Rightarrow> env \<Rightarrow> world \<Rightarrow> (py_error + ret) \<times> world" where
  "generate_cert nm e w =
     (let ret0 = \<lparr>name = nm, changes = [], result = Some True, comment = []\<rparr>;
          cert = certs_path e @ nm @ ''.crt'';
          key = certs_path e @ nm @ ''.key'';
          (has_cert, w1) = isfile cert w;
          (has_key, w2) = (if has_cert then isfile key w1 else (False, w1))
      in if has_cert \<and> has_key then
           (Inr (ret0\<lparr>comment := ''No execution needed. Cert: '' @ cert @ '' and key: '' @ key
                        @ '' already generated.''\<rparr>), w2)
         else if opts_test e then
           (Inr (ret0\<lparr>result := None,
                      comment := ''Certificate and key generation would be executed''\<rparr>), w2)
         else
           (let (cert_save, w3) = salt_call e (Icinga2_generate_cert nm) w2
            in if retcode cert_save = 0 then
                 (Inr (ret0\<lparr>comment := ''Certificate and key generated'',
                            changes :=
                              AList.update ''key'' (''Executed. Key saved: '' @ key)
                                (AList.update ''cert'' (''Executed. Certificate saved: '' @ cert)
                                   (changes ret0))\<rparr>), w3)
               else (Inr ret0, w3)))"

definition save_cert :: "string \<Rightarrow> string \<Rightarrow> env \<Rightarrow> world \<Rightarrow> (py_error + ret) \<times> world" where
  "save_cert nm parent e w =
     (let ret0 = \<lparr>name = nm, changes = [], result = Some True, comment = []\<rparr>;
          cert = certs_path e @ ''trusted-parent.crt'';
          (has_cert, w1) = isfile cert w
      in if has_cert then
           (Inr (ret0\<lparr>comment := ''No execution needed. Cert: '' @ cert @ '' already saved.''\<rparr>),
            w1)
         else if opts_test e then
           (Inr (ret0\<lparr>result := None,
                      comment := ''Certificate save for icinga2 parent would be executed''\<rparr>), w1)
         else
           (let (cert_save, w2) = salt_call e (Icinga2_save_cert nm parent) w1
            in if retcode cert_save = 0 then
                 (Inr (ret0\<lparr>comment := ''Certificate for icinga2 parent saved'',
                            changes :=
                              AList.update ''cert'' (''Executed. Certificate saved: '' @ cert)
                                (changes ret0)\<rparr>), w2)
               else (Inr ret0, w2)))"

definition request_cert ::
  "string \<Rightarrow> string \<Rightarrow> string \<Rightarrow> string \<Rightarrow> env \<Rightarrow> world \<Rightarrow> (py_error + ret) \<times> world" where
  "request_cert nm parent ticket port e w =
     (let ret0 = \<lparr>name = nm, changes = [], result = Some True, comment = []\<rparr>;
          cert = certs_path e @ ''ca.crt'';
          (has_cert, w1) = isfile cert w
      in if has_cert then
           (Inr (ret0\<lparr>comment := ''No execution needed. Cert: '' @ cert @ '' already exists.''\<rparr>),
            w1)
         else if opts_test e then
           (Inr (ret0\<lparr>result := None,
                      comment := ''Certificate request from icinga2 parent would be executed''\<rparr>),
            w1)
         else
           (let (cert_request, w2) = salt_call e (Icinga2_request_cert nm parent ticket port) w1
            in if retcode cert_request = 0 then
                 (Inr (ret0\<lparr>comment := ''Certificate request from icinga2 parent executed'',
                            changes :=
                              AList.update ''cert'' (''Executed. Certificate requested: '' @ cert)
                                (changes ret0)\<rparr>), w2)
               else
                 (Inr (ret0\<lparr>comment := ''FAILED. Certificate requested failed with output: ''
                                       @ stdout cert_request,
                            result := Some False\<rparr>), w2)))"

text \<open>
  Line 273 reads \<open>os.path.isfile(cert) and os.path.isfile(cert)\<close>: the variable \<open>key\<close> of
  line 270 is never used, and the certificate is probed a second time.
\<close>

definition node_setup ::
  "string \<Rightarrow> string \<Rightarrow> string \<Rightarrow> env \<Rightarrow> world \<Rightarrow> (py_error + ret) \<times> world" where
  "node_setup nm parent ticket e w =
     (let ret0 = \<lparr>name = nm, changes = [], result = Some True, comment = []\<rparr>;
          cert = certs_path e @ nm @ ''.crt.orig'';
          key = certs_path e @ nm @ ''.key.orig'';
          (has_cert, w1) = isfile cert w;
          (has_cert', w2) = (if has_cert then isfile cert w1 else (False, w1))
      in if has_cert \<and> has_cert' then
           (Inr (ret0\<lparr>comment := ''No execution needed. Node already configured.''\<rparr>), w2)
         else if opts_test e then
           (Inr (ret0\<lparr>result := None, comment := ''Node setup will be executed.''\<rparr>), w2)
         else
           (let (node_setup_res, w3) = salt_call e (Icinga2_node_setup nm parent ticket) w2
            in if retcode node_setup_res = 0 then
                 (Inr (ret0\<lparr>comment := ''Node setup executed.'',
                            changes :=
                              AList.update ''cert'' ''Node setup finished successfully.''
                                (changes ret0)\<rparr>), w3)
               else
                 (Inr (ret0\<lparr>comment := ''FAILED. Node setup failed with outpu: ''
                                       @ stdout node_setup_res,
                            result := Some False\<rparr>), w3)))"

subsection \<open>The five actions as one entry point\<close>

datatype action =
    GenerateTicket string "string option" "string option" "string option" bool "string option"
  | GenerateCert string
  | SaveCert string string
  | RequestCert string string string string
  | NodeSetup string string string

fun run :: "action \<Rightarrow> env \<Rightarrow> world \<Rightarrow> (py_error + ret) \<times> world" where
  "run (GenerateTicket nm output grain key overwrite salt) e w =
     generate_ticket nm output grain key overwrite salt e w"
| "run (GenerateCert nm) e w = generate_cert nm e w"
| "run (SaveCert nm parent) e w = save_cert nm parent e w"
| "run (RequestCert nm parent ticket port) e w = request_cert nm parent ticket port e w"
| "run (NodeSetup nm parent ticket) e w = node_setup nm parent ticket e w"

subsection \<open>The conditions the source tests, as predicates on the minion\<close>

text \<open>
  The condition tested before execution, read off the source: line 69
  (\<open>grain in grains.ls()\<close>), lines 83 to 87 (\<open>key in grain_value\<close>), line 104
  (\<open>os.path.isfile(output)\<close>), and lines 162, 197, 233 and 273 for the certificate
  actions. Evaluating it can raise (line 87), so its value is an error or a truth value.
\<close>

definition ticket_satisfied ::
  "string option \<Rightarrow> string option \<Rightarrow> string option \<Rightarrow> world \<Rightarrow> py_error + bool" where
  "ticket_satisfied output grain key w =
     (if output = Some ''grain'' then
        (if truthy grain \<and> \<not> truthy key then Inr (str grain \<in> dom (grains w))
         else if truthy grain then
           py_in (str key) (case grains w (str grain) of None \<Rightarrow> VDict [] | Some v \<Rightarrow> v)
         else Inr False)
      else if truthy output then Inr (files w (str output) \<noteq> None)
      else Inr False)"

fun satisfied :: "action \<Rightarrow> env \<Rightarrow> world \<Rightarrow> py_error + bool" where
  "satisfied (GenerateTicket nm output grain key overwrite salt) e w =
     ticket_satisfied output grain key w"
| "satisfied (GenerateCert nm) e w =
     Inr (files w (certs_path e @ nm @ ''.crt'') \<noteq> None
          \<and> files w (certs_path e @ nm @ ''.key'') \<noteq> None)"
| "satisfied (SaveCert nm parent) e w =
     Inr (files w (certs_path e @ ''trusted-parent.crt'') \<noteq> None)"
| "satisfied (RequestCert nm parent ticket port) e w =
     Inr (files w (certs_path e @ ''ca.crt'') \<noteq> None)"
| "satisfied (NodeSetup nm parent ticket) e w =
     Inr (files w (certs_path e @ nm @ ''.crt.orig'') \<noteq> None)"

text \<open>Only \<open>generate_ticket\<close> has the parameter \<open>overwrite\<close>.\<close>

fun forced :: "action \<Rightarrow> bool" where
  "forced (GenerateTicket nm output grain key overwrite salt) = overwrite"
| "forced a = False"

text \<open>Lines 99 to 102: \<open>output == "grain"\<close> with a false \<open>grain\<close>.\<close>

fun usage_error :: "action \<Rightarrow> bool" where
  "usage_error (GenerateTicket nm output grain key overwrite salt) =
     (output = Some ''grain'' \<and> \<not> truthy grain)"
| "usage_error a = False"

text \<open>
  The early return with "No execution needed": the condition holds and \<open>overwrite\<close> is
  false. With \<open>overwrite\<close> true the condition is not evaluated.
\<close>

definition short_circuit :: "action \<Rightarrow> env \<Rightarrow> world \<Rightarrow> py_error + bool" where
  "short_circuit a e w = (if forced a then Inr False else satisfied a e w)"

subsection \<open>A stub minion for concrete runs\<close>

text \<open>
  An executor that answers every call with the same return code and output and touches
  no file, a context built on it, and a minion with no file and no grain.
\<close>

definition stub_executor ::
  "int \<Rightarrow> string \<Rightarrow> call \<Rightarrow> (string \<rightharpoonup> string) \<Rightarrow> cmd_result \<times> (string \<rightharpoonup> string)" where
  "stub_executor rc out c fs = (\<lparr>stdout = out, retcode = rc\<rparr>, fs)"

definition stub_env :: "bool \<Rightarrow> int \<Rightarrow> string \<Rightarrow> env" where
  "stub_env t rc out =
     \<lparr>opts_test = t, certs_path = ''/pki/'', executor = stub_executor rc out\<rparr>"

definition world0 :: world where
  "world0 = \<lparr>files = Map.empty, grains = Map.empty, trace = []\<rparr>"

section \<open>Properties\<close>

lemmas collab_defs = isfile_def grains_ls_def grains_get_def grains_setval_def salt_call_def
  fopen_write_def read_grain_value_def effects_def

lemmas stub_defs = stub_env_def stub_executor_def world0_def truthy_def str_def

subsection \<open>The early return when nothing is to be done\<close>

lemma generate_ticket_satisfied:
  assumes "ticket_satisfied output grain key w = Inr True" and "\<not> overwrite"
  shows "\<exists>r w'. generate_ticket nm output grain key overwrite salt e w = (Inr r, w')
           \<and> result r = Some True \<and> changes r = []
           \<and> prefix ''No execution needed.'' (comment r)
           \<and> files w' = files w \<and> grains w' = grains w \<and> effects w' = effects w"
  using assms
  by (auto simp add: generate_ticket_def ticket_satisfied_def collab_defs Let_def
      split: if_splits option.splits sum.splits)

lemma run_satisfied:
  assumes "satisfied a e w = Inr True" and "\<not> forced a"
  shows "\<exists>r w'. run a e w = (Inr r, w')
           \<and> result r = Some True \<and> changes r = []
           \<and> prefix ''No execution needed.'' (comment r)
           \<and> files w' = files w \<and> grains w' = grains w \<and> effects w' = effects w"
proof (cases a)
  case (GenerateTicket nm out grain key overwrite salt)
  with assms show ?thesis
    using generate_ticket_satisfied [of out grain key w overwrite nm salt e] by simp
next
  case (GenerateCert nm)
  with assms show ?thesis by (simp add: generate_cert_def collab_defs Let_def)
next
  case (SaveCert nm parent)
  with assms show ?thesis by (simp add: save_cert_def collab_defs Let_def)
next
  case (RequestCert nm parent ticket port)
  with assms show ?thesis by (simp add: request_cert_def collab_defs Let_def)
next
  case (NodeSetup nm parent ticket)
  with assms show ?thesis by (simp add: node_setup_def collab_defs Let_def)
qed

text \<open>
  C3. For each of the five actions: when the condition tested before execution holds
  and \<open>overwrite\<close> was not requested, the action returns \<open>result = True\<close>, empty
  \<open>changes\<close> and a comment that starts with "No execution needed."; the files and the
  grains are as before, and no executor call and no grain write was made.
\<close>

theorem satisfied_short_circuits:
  assumes "satisfied a e w = Inr True" and "\<not> forced a"
  shows "\<exists>r w'. run a e w = (Inr r, w')
           \<and> result r = Some True \<and> changes r = []
           \<and> prefix ''No execution needed.'' (comment r)
           \<and> files w' = files w \<and> grains w' = grains w \<and> effects w' = effects w"
  using assms by (rule run_satisfied)

theorem satisfied_short_circuits_witness:
  "satisfied (GenerateCert ''node1'') (stub_env False 0 ''ok'')
     \<lparr>files = [''/pki/node1.crt'' \<mapsto> ''c'', ''/pki/node1.key'' \<mapsto> ''k''],
      grains = Map.empty, trace = []\<rparr> = Inr True
   \<and> \<not> forced (GenerateCert ''node1'')
   \<and> run (GenerateCert ''node1'') (stub_env False 0 ''ok'')
       \<lparr>files = [''/pki/node1.crt'' \<mapsto> ''c'', ''/pki/node1.key'' \<mapsto> ''k''],
        grains = Map.empty, trace = []\<rparr>
     = (Inr \<lparr>name = ''node1'', changes = [], result = Some True,
             comment = ''No execution needed. Cert: /pki/node1.crt and key: /pki/node1.key already generated.''\<rparr>,
        \<lparr>files = [''/pki/node1.crt'' \<mapsto> ''c'', ''/pki/node1.key'' \<mapsto> ''k''],
         grains = Map.empty,
         trace = [IsFile ''/pki/node1.crt'', IsFile ''/pki/node1.key'']\<rparr>)"
proof -
  let ?w = "\<lparr>files = [''/pki/node1.crt'' \<mapsto> ''c'', ''/pki/node1.key'' \<mapsto> ''k''],
             grains = Map.empty, trace = []\<rparr>"
  have h1: "satisfied (GenerateCert ''node1'') (stub_env False 0 ''ok'') ?w = Inr True"
    by (simp add: stub_defs)
  have h2: "\<not> forced (GenerateCert ''node1'')" by simp
  show ?thesis
    using h1 h2 satisfied_short_circuits [OF h1 h2]
    by (simp add: generate_cert_def collab_defs Let_def stub_defs)
qed

subsection \<open>Dry run\<close>

lemma generate_ticket_test:
  assumes "opts_test e" and "\<not> (output = Some ''grain'' \<and> \<not> truthy grain)"
    and "(if overwrite then Inr False else ticket_satisfied output grain key w) = sc"
    and "sc \<noteq> Inr True"
    and "generate_ticket nm output grain key overwrite salt e w = (res, w')"
  shows "(\<forall>r. res = Inr r \<longrightarrow> result r = None \<and> changes r = [])
         \<and> files w' = files w \<and> grains w' = grains w \<and> effects w' = effects w
         \<and> (sc = Inr False \<longrightarrow> (\<exists>r. res = Inr r))"
  using assms
  by (auto simp add: generate_ticket_def ticket_satisfied_def collab_defs Let_def
      split: if_splits option.splits sum.splits)

text \<open>
  C2. With \<open>__opts__["test"]\<close> set, for an action that is neither rejected as a usage
  error nor returns early with "No execution needed": every record it returns has
  \<open>result = None\<close> and empty \<open>changes\<close>; the files and grains are as before and the
  invocation made no executor call and no grain write; and it does return
  a record whenever the condition tested before execution evaluates to false. (The
  condition can also raise: \<open>key in grain_value\<close> on a grain that holds a number. Then
  no record is returned, and still nothing was executed or written.)
\<close>

theorem dry_run_predicts_only:
  assumes "opts_test e" and "\<not> usage_error a" and "short_circuit a e w \<noteq> Inr True"
    and "run a e w = (res, w')"
  shows "(\<forall>r. res = Inr r \<longrightarrow> result r = None \<and> changes r = [])
         \<and> files w' = files w \<and> grains w' = grains w \<and> effects w' = effects w
         \<and> (short_circuit a e w = Inr False \<longrightarrow> (\<exists>r. res = Inr r))"
proof (cases a)
  case (GenerateTicket nm out grain key overwrite salt)
  with assms show ?thesis
    using generate_ticket_test [of e out grain overwrite key w "short_circuit a e w" nm salt res w']
    by (simp add: short_circuit_def)
next
  case (GenerateCert nm)
  with assms show ?thesis
    by (auto simp add: short_circuit_def generate_cert_def collab_defs Let_def split: if_splits)
next
  case (SaveCert nm parent)
  with assms show ?thesis
    by (auto simp add: short_circuit_def save_cert_def collab_defs Let_def split: if_splits)
next
  case (RequestCert nm parent ticket port)
  with assms show ?thesis
    by (auto simp add: short_circuit_def request_cert_def collab_defs Let_def split: if_splits)
next
  case (NodeSetup nm parent ticket)
  with assms show ?thesis
    by (auto simp add: short_circuit_def node_setup_def collab_defs Let_def split: if_splits)
qed

theorem dry_run_predicts_only_witness:
  "opts_test (stub_env True 0 ''T1'')
   \<and> \<not> usage_error (GenerateTicket ''node1'' (Some ''grain'') (Some ''ticket'') None False None)
   \<and> short_circuit (GenerateTicket ''node1'' (Some ''grain'') (Some ''ticket'') None False None)
        (stub_env True 0 ''T1'') world0 = Inr False
   \<and> run (GenerateTicket ''node1'' (Some ''grain'') (Some ''ticket'') None False None)
        (stub_env True 0 ''T1'') world0
     = (Inr \<lparr>name = ''node1'', changes = [], result = None,
             comment = ''Ticket generation would be executed, storing result in grain: ticket''\<rparr>,
        world0\<lparr>trace := [GrainsLs]\<rparr>)
   \<and> effects (world0\<lparr>trace := [GrainsLs]\<rparr>) = effects world0"
proof -
  let ?a = "GenerateTicket ''node1'' (Some ''grain'') (Some ''ticket'') None False None"
  let ?e = "stub_env True 0 ''T1''"
  let ?r = "\<lparr>name = ''node1'', changes = [], result = None,
             comment = ''Ticket generation would be executed, storing result in grain: ticket''\<rparr>"
  have h1: "opts_test ?e" by (simp add: stub_defs)
  have h2: "\<not> usage_error ?a" by (simp add: stub_defs)
  have h3: "short_circuit ?a ?e world0 = Inr False"
    by (simp add: short_circuit_def ticket_satisfied_def stub_defs)
  then have h3': "short_circuit ?a ?e world0 \<noteq> Inr True" by simp
  have h4: "run ?a ?e world0 = (Inr ?r, world0\<lparr>trace := [GrainsLs]\<rparr>)"
    by (simp add: generate_ticket_def collab_defs Let_def stub_defs)
  show ?thesis
    using h1 h2 h3 h4 dry_run_predicts_only [OF h1 h2 h3' h4] by simp
qed

subsection \<open>The usage error of \<open>generate_ticket\<close>\<close>

text \<open>
  C4. \<open>generate_ticket\<close> with \<open>output = "grain"\<close> and a false \<open>grain\<close> (\<open>None\<close> or the
  empty string) returns \<open>result = False\<close> with the error comment, whatever
  \<open>__opts__["test"]\<close>, \<open>overwrite\<close>, \<open>key\<close> and \<open>salt\<close> are; the minion is returned as it
  was, its trace included: no file probe, no grain access and no executor call was made.
\<close>

theorem usage_error_first:
  assumes "\<not> truthy grain"
  shows "generate_ticket nm (Some ''grain'') grain key overwrite salt e w =
           (Inr \<lparr>name = nm, changes = [], result = Some False,
                 comment = ''Error: output type '' @ [CHR 0x27] @ ''grain'' @ [CHR 0x27]
                             @ '' needs the grain parameter'' @ [CHR 0x0A]\<rparr>, w)"
  using assms by (simp add: generate_ticket_def)

theorem usage_error_first_witness:
  "\<not> truthy None
   \<and> generate_ticket ''node1'' (Some ''grain'') None (Some ''k'') False None
       (stub_env True 0 ''T1'') world0
     = (Inr \<lparr>name = ''node1'', changes = [], result = Some False,
             comment = ''Error: output type '' @ [CHR 0x27] @ ''grain'' @ [CHR 0x27]
                         @ '' needs the grain parameter'' @ [CHR 0x0A]\<rparr>, world0)
   \<and> opts_test (stub_env True 0 ''T1'')"
proof -
  have h: "\<not> truthy None" by (simp add: truthy_def)
  show ?thesis
    using h usage_error_first [OF h, of "''node1''" "Some ''k''" False None
        "stub_env True 0 ''T1''" world0]
    by (simp add: stub_defs)
qed

subsection \<open>Storing the ticket under a key of a grain\<close>

text \<open>
  C5. \<open>generate_ticket\<close> with \<open>output = "grain"\<close>, a grain name \<open>g\<close> and a key \<open>k\<close>, when it
  reaches execution (no dry run, and \<open>overwrite\<close> set or \<open>k\<close> not yet a key): if the grain
  held the dictionary \<open>d\<close> (the empty one when the grain did not exist), it holds
  afterwards \<open>d\<close> with \<open>k\<close> bound to the executor's output, every other key of \<open>d\<close> bound as
  before, and the other grains are untouched.
\<close>

theorem nested_grain_merge:
  assumes "g \<noteq> []" and "k \<noteq> []" and "\<not> opts_test e"
    and "(case grains w g of None \<Rightarrow> VDict [] | Some v \<Rightarrow> v) = VDict d"
    and "overwrite \<or> k \<notin> fst ` set d"
    and "ticket = stdout (fst (executor e (Icinga2_generate_ticket nm salt) (files w)))"
  shows "\<exists>r w'. generate_ticket nm (Some ''grain'') (Some g) (Some k) overwrite salt e w
                  = (Inr r, w')
           \<and> grains w' = (grains w)(g \<mapsto> VDict (AList.update k (VStr ticket) d))
           \<and> map_of (AList.update k (VStr ticket) d) = (map_of d)(k \<mapsto> VStr ticket)"
  using assms
  by (auto simp add: generate_ticket_def ticket_execute_def collab_defs Let_def truthy_def
      str_def update_conv' split: if_splits option.splits sum.splits prod.splits)

theorem nested_grain_merge_witness:
  "''facts'' \<noteq> [] \<and> ''b'' \<noteq> [] \<and> \<not> opts_test (stub_env False 0 ''T1'')
   \<and> grains (snd (generate_ticket ''node1'' (Some ''grain'') (Some ''facts'') (Some ''b'') True
                    None (stub_env False 0 ''T1'')
                    \<lparr>files = Map.empty, grains = [''facts'' \<mapsto> VDict [(''a'', VInt 1)]],
                     trace = []\<rparr>)) ''facts''
     = Some (VDict [(''a'', VInt 1), (''b'', VStr ''T1'')])"
proof -
  let ?e = "stub_env False 0 ''T1''"
  let ?w = "\<lparr>files = Map.empty, grains = [''facts'' \<mapsto> VDict [(''a'', VInt 1)]], trace = []\<rparr>"
  have h1: "''facts'' \<noteq> []" and h2: "''b'' \<noteq> []" by simp_all
  have h3: "\<not> opts_test ?e" by (simp add: stub_defs)
  have h4: "(case grains ?w ''facts'' of None \<Rightarrow> VDict [] | Some v \<Rightarrow> v) = VDict [(''a'', VInt 1)]"
    by simp
  have h5: "True \<or> ''b'' \<notin> fst ` set [(''a'', VInt 1)]" by simp
  have h6: "''T1'' = stdout (fst (executor ?e (Icinga2_generate_ticket ''node1'' None) (files ?w)))"
    by (simp add: stub_defs)
  from nested_grain_merge [OF h1 h2 h3 h4 h5 h6]
  obtain r w' where
    "generate_ticket ''node1'' (Some ''grain'') (Some ''facts'') (Some ''b'') True None ?e ?w
       = (Inr r, w')"
    "grains w' = (grains ?w)(''facts'' \<mapsto> VDict (AList.update ''b'' (VStr ''T1'') [(''a'', VInt 1)]))"
    by blast
  then show ?thesis using h3 by simp
qed

subsection \<open>Running an action twice\<close>

text \<open>
  C6. For each of the five actions, with \<open>overwrite\<close> not requested: if after a first
  invocation the condition tested before execution holds, the invocation that follows
  returns a record with empty \<open>changes\<close>.
\<close>

theorem second_run_no_changes:
  assumes "\<not> forced a" and "run a e w = (res1, w1)" and "satisfied a e w1 = Inr True"
  shows "\<exists>r w2. run a e w1 = (Inr r, w2) \<and> changes r = []"
  using run_satisfied [OF assms(3) assms(1)] by blast

theorem second_run_no_changes_witness:
  "\<not> forced (GenerateTicket ''node1'' (Some ''grain'') (Some ''ticket'') None False None)
   \<and> run (GenerateTicket ''node1'' (Some ''grain'') (Some ''ticket'') None False None)
       (stub_env False 0 ''T1'') world0
     = (Inr \<lparr>name = ''node1'', changes = [(''ticket'', ''Executed. Output into grain: ticket'')],
             result = Some True, comment = ''T1''\<rparr>,
        \<lparr>files = Map.empty, grains = [''ticket'' \<mapsto> VStr ''T1''],
         trace = [GrainsLs, Exec (Icinga2_generate_ticket ''node1'' None),
                  GrainsSetval ''ticket'' (VStr ''T1'')]\<rparr>)
   \<and> satisfied (GenerateTicket ''node1'' (Some ''grain'') (Some ''ticket'') None False None)
       (stub_env False 0 ''T1'')
       \<lparr>files = Map.empty, grains = [''ticket'' \<mapsto> VStr ''T1''],
        trace = [GrainsLs, Exec (Icinga2_generate_ticket ''node1'' None),
                 GrainsSetval ''ticket'' (VStr ''T1'')]\<rparr> = Inr True
   \<and> fst (run (GenerateTicket ''node1'' (Some ''grain'') (Some ''ticket'') None False None)
       (stub_env False 0 ''T1'')
       \<lparr>files = Map.empty, grains = [''ticket'' \<mapsto> VStr ''T1''],
        trace = [GrainsLs, Exec (Icinga2_generate_ticket ''node1'' None),
                 GrainsSetval ''ticket'' (VStr ''T1'')]\<rparr>)
     = Inr \<lparr>name = ''node1'', changes = [], result = Some True,
            comment = ''No execution needed. Grain ticket already set''\<rparr>"
proof -
  let ?a = "GenerateTicket ''node1'' (Some ''grain'') (Some ''ticket'') None False None"
  let ?e = "stub_env False 0 ''T1''"
  let ?r1 = "\<lparr>name = ''node1'', changes = [(''ticket'', ''Executed. Output into grain: ticket'')],
              result = Some True, comment = ''T1''\<rparr>"
  let ?w1 = "\<lparr>files = Map.empty, grains = [''ticket'' \<mapsto> VStr ''T1''],
              trace = [GrainsLs, Exec (Icinga2_generate_ticket ''node1'' None),
                       GrainsSetval ''ticket'' (VStr ''T1'')]\<rparr>"
  have h1: "\<not> forced ?a" by simp
  have h2: "run ?a ?e world0 = (Inr ?r1, ?w1)"
    by (simp add: generate_ticket_def ticket_execute_def collab_defs Let_def stub_defs)
  have h3: "satisfied ?a ?e ?w1 = Inr True"
    by (simp add: ticket_satisfied_def stub_defs)
  have h4: "fst (run ?a ?e ?w1) = Inr \<lparr>name = ''node1'', changes = [], result = Some True,
              comment = ''No execution needed. Grain ticket already set''\<rparr>"
    by (simp add: generate_ticket_def collab_defs Let_def stub_defs)
  show ?thesis
    using h1 h2 h3 h4 second_run_no_changes [OF h1 h2 h3] by simp
qed

subsection \<open>\<open>overwrite\<close> on a ticket that is already stored\<close>

text \<open>
  What the code does with \<open>overwrite\<close> set, no dry run, and the grain, the key of the
  grain or the output file already there. It always calls \<open>icinga2.generate_ticket\<close>,
  and a record it returns has non-empty \<open>changes\<close>. For a grain it returns a record
  (for a key of a grain: when the grain holds a dictionary; on a string that contains
  the key the item assignment raises). For an output file it never returns a record:
  after the executor call, line 142 raises \<open>AttributeError\<close>.
\<close>

lemma overwrite_executes:
  assumes "ticket_satisfied output grain key w = Inr True" and "\<not> opts_test e"
    and "generate_ticket nm output grain key True salt e w = (res, w')"
  shows "(\<exists>evs. trace w' = trace w @ evs \<and> Exec (Icinga2_generate_ticket nm salt) \<in> set evs)
         \<and> (\<forall>r. res = Inr r \<longrightarrow> changes r \<noteq> [])
         \<and> (output = Some ''grain''
              \<and> (truthy key \<longrightarrow> (\<exists>d. grains w (str grain) = Some (VDict d)))
            \<longrightarrow> (\<exists>r. res = Inr r))
         \<and> (output \<noteq> Some ''grain'' \<longrightarrow>
              res = Inl AttributeError
              \<and> w' = w\<lparr>files := snd (executor e (Icinga2_generate_ticket nm salt) (files w)),
                       trace := trace w @ [Exec (Icinga2_generate_ticket nm salt)]\<rparr>)"
  using assms
  by (auto simp add: generate_ticket_def ticket_execute_def ticket_satisfied_def collab_defs
      Let_def split: if_splits option.splits sum.splits prod.splits)

text \<open>
  C7, at an output file that is already there: \<open>generate_ticket\<close> with \<open>overwrite\<close> set
  and no dry run calls the executor and then raises \<open>AttributeError\<close>; no record is
  returned and the file keeps its old content. The same happens with a shared secret
  given. At a grain that holds the string "old", with the key "ld" (a substring, so
  \<open>key in grain_value\<close> is true), the executor is called and the item assignment raises
  \<open>TypeError\<close>.
\<close>

theorem overwrite_file_raises:
  "ticket_satisfied (Some ''/tmp/t'') None None
     \<lparr>files = [''/tmp/t'' \<mapsto> ''old''], grains = Map.empty, trace = []\<rparr> = Inr True
   \<and> generate_ticket ''node1'' (Some ''/tmp/t'') None None True None (stub_env False 0 ''T1'')
       \<lparr>files = [''/tmp/t'' \<mapsto> ''old''], grains = Map.empty, trace = []\<rparr>
     = (Inl AttributeError,
        \<lparr>files = [''/tmp/t'' \<mapsto> ''old''], grains = Map.empty,
         trace = [Exec (Icinga2_generate_ticket ''node1'' None)]\<rparr>)
   \<and> generate_ticket ''node1'' (Some ''/tmp/t'') None None True (Some ''secret'')
       (stub_env False 0 ''T1'')
       \<lparr>files = [''/tmp/t'' \<mapsto> ''old''], grains = Map.empty, trace = []\<rparr>
     = (Inl AttributeError,
        \<lparr>files = [''/tmp/t'' \<mapsto> ''old''], grains = Map.empty,
         trace = [Exec (Icinga2_generate_ticket ''node1'' (Some ''secret''))]\<rparr>)
   \<and> ticket_satisfied (Some ''grain'') (Some ''g'') (Some ''ld'')
     \<lparr>files = Map.empty, grains = [''g'' \<mapsto> VStr ''old''], trace = []\<rparr> = Inr True
   \<and> generate_ticket ''node1'' (Some ''grain'') (Some ''g'') (Some ''ld'') True None
       (stub_env False 0 ''T1'')
       \<lparr>files = Map.empty, grains = [''g'' \<mapsto> VStr ''old''], trace = []\<rparr>
     = (Inl TypeError,
        \<lparr>files = Map.empty, grains = [''g'' \<mapsto> VStr ''old''],
         trace = [GrainsLs, GrainsGet ''g'', Exec (Icinga2_generate_ticket ''node1'' None),
                  GrainsLs, GrainsGet ''g'']\<rparr>)"
  by (simp add: generate_ticket_def ticket_execute_def ticket_satisfied_def collab_defs
      Let_def stub_defs sublist_code(3))

subsection \<open>A failing executor\<close>

lemma request_cert_failed:
  assumes "files w (certs_path e @ ''ca.crt'') = None" and "\<not> opts_test e"
    and "retcode (fst (executor e (Icinga2_request_cert nm parent ticket port) (files w))) \<noteq> 0"
  shows "fst (request_cert nm parent ticket port e w) =
           Inr \<lparr>name = nm, changes = [], result = Some False,
                 comment = ''FAILED. Certificate requested failed with output: ''
                   @ stdout (fst (executor e (Icinga2_request_cert nm parent ticket port)
                                    (files w)))\<rparr>"
  using assms
  by (auto simp add: request_cert_def collab_defs Let_def split: prod.splits)

lemma node_setup_failed:
  assumes "files w (certs_path e @ nm @ ''.crt.orig'') = None" and "\<not> opts_test e"
    and "retcode (fst (executor e (Icinga2_node_setup nm parent ticket) (files w))) \<noteq> 0"
  shows "fst (node_setup nm parent ticket e w) =
           Inr \<lparr>name = nm, changes = [], result = Some False,
                 comment = ''FAILED. Node setup failed with outpu: ''
                   @ stdout (fst (executor e (Icinga2_node_setup nm parent ticket) (files w)))\<rparr>"
  using assms
  by (auto simp add: node_setup_def collab_defs Let_def split: prod.splits)

text \<open>
  C8. \<open>request_cert\<close> when the file \<open>ca.crt\<close> is missing, no dry run, and the executor
  answers with return code 1 and output "boom": the record has \<open>result = False\<close> and
  "boom" is part of its comment.
\<close>

theorem request_cert_reports_failure:
  assumes "files w (certs_path e @ ''ca.crt'') = None" and "\<not> opts_test e"
    and "fst (executor e (Icinga2_request_cert nm parent ticket port) (files w))
           = \<lparr>stdout = ''boom'', retcode = 1\<rparr>"
  shows "\<exists>r. fst (request_cert nm parent ticket port e w) = Inr r
           \<and> result r = Some False \<and> sublist ''boom'' (comment r)"
proof -
  have "retcode (fst (executor e (Icinga2_request_cert nm parent ticket port) (files w))) \<noteq> 0"
    using assms(3) by simp
  from request_cert_failed [OF assms(1,2) this]
  have "fst (request_cert nm parent ticket port e w) =
           Inr \<lparr>name = nm, changes = [], result = Some False,
                 comment = ''FAILED. Certificate requested failed with output: '' @ ''boom''\<rparr>"
    using assms(3) by simp
  moreover have
    "sublist ''boom'' (''FAILED. Certificate requested failed with output: '' @ ''boom'')"
    by (rule sublist_append_leftI)
  ultimately show ?thesis by simp
qed

theorem request_cert_reports_failure_witness:
  "files world0 (certs_path (stub_env False 1 ''boom'') @ ''ca.crt'') = None
   \<and> \<not> opts_test (stub_env False 1 ''boom'')
   \<and> fst (request_cert ''node1'' ''master1'' ''T1'' ''5665'' (stub_env False 1 ''boom'') world0)
     = Inr \<lparr>name = ''node1'', changes = [], result = Some False,
            comment = ''FAILED. Certificate requested failed with output: boom''\<rparr>
   \<and> sublist ''boom'' ''FAILED. Certificate requested failed with output: boom''"
proof -
  let ?e = "stub_env False 1 ''boom''"
  have h1: "files world0 (certs_path ?e @ ''ca.crt'') = None" by (simp add: stub_defs)
  have h2: "\<not> opts_test ?e" by (simp add: stub_defs)
  have h3: "fst (executor ?e (Icinga2_request_cert ''node1'' ''master1'' ''T1'' ''5665'')
                   (files world0)) = \<lparr>stdout = ''boom'', retcode = 1\<rparr>"
    by (simp add: stub_defs)
  have h4: "fst (request_cert ''node1'' ''master1'' ''T1'' ''5665'' ?e world0)
     = Inr \<lparr>name = ''node1'', changes = [], result = Some False,
            comment = ''FAILED. Certificate requested failed with output: boom''\<rparr>"
    by (simp add: request_cert_def collab_defs Let_def stub_defs)
  show ?thesis
    using h1 h2 h4 request_cert_reports_failure [OF h1 h2 h3] by auto
qed

text \<open>
  C10. \<open>generate_cert\<close> and \<open>save_cert\<close>, when they reach execution (no dry run, the
  files not there) and the executor answers with a return code other than 0: the record
  is the initial one, \<open>result = True\<close>, empty \<open>changes\<close>, empty comment.
\<close>

theorem cert_failure_is_silent:
  assumes "\<not> opts_test e"
  shows "(satisfied (GenerateCert nm) e w = Inr False
          \<and> retcode (fst (executor e (Icinga2_generate_cert nm) (files w))) \<noteq> 0
          \<longrightarrow> fst (generate_cert nm e w)
                = Inr \<lparr>name = nm, changes = [], result = Some True, comment = []\<rparr>)
         \<and> (satisfied (SaveCert nm parent) e w = Inr False
          \<and> retcode (fst (executor e (Icinga2_save_cert nm parent) (files w))) \<noteq> 0
          \<longrightarrow> fst (save_cert nm parent e w)
                = Inr \<lparr>name = nm, changes = [], result = Some True, comment = []\<rparr>)"
  using assms
  by (auto simp add: generate_cert_def save_cert_def collab_defs Let_def split: prod.splits)

theorem cert_failure_is_silent_witness:
  "\<not> opts_test (stub_env False 2 ''denied'')
   \<and> satisfied (GenerateCert ''node2'') (stub_env False 2 ''denied'') world0 = Inr False
   \<and> retcode (fst (executor (stub_env False 2 ''denied'') (Icinga2_generate_cert ''node2'')
                     (files world0))) = 2
   \<and> fst (generate_cert ''node2'' (stub_env False 2 ''denied'') world0)
     = Inr \<lparr>name = ''node2'', changes = [], result = Some True, comment = []\<rparr>
   \<and> satisfied (SaveCert ''node2'' ''master1'') (stub_env False 2 ''denied'') world0 = Inr False
   \<and> retcode (fst (executor (stub_env False 2 ''denied'') (Icinga2_save_cert ''node2'' ''master1'')
                     (files world0))) = 2
   \<and> fst (save_cert ''node2'' ''master1'' (stub_env False 2 ''denied'') world0)
     = Inr \<lparr>name = ''node2'', changes = [], result = Some True, comment = []\<rparr>"
proof -
  let ?e = "stub_env False 2 ''denied''"
  have h: "\<not> opts_test ?e" by (simp add: stub_defs)
  have s1: "satisfied (GenerateCert ''node2'') ?e world0 = Inr False" by (simp add: stub_defs)
  have s2: "satisfied (SaveCert ''node2'' ''master1'') ?e world0 = Inr False"
    by (simp add: stub_defs)
  have r1: "retcode (fst (executor ?e (Icinga2_generate_cert ''node2'') (files world0))) = 2"
    by (simp add: stub_defs)
  have r2: "retcode (fst (executor ?e (Icinga2_save_cert ''node2'' ''master1'') (files world0))) = 2"
    by (simp add: stub_defs)
  show ?thesis
    using h s1 s2 r1 r2 cert_failure_is_silent [OF h, of "''node2''" world0 "''master1''"]
    by simp
qed

text \<open>
  C1, at a failing executor: \<open>generate_cert\<close>, \<open>save_cert\<close> and \<open>generate_ticket\<close> return
  \<open>result = True\<close>, and their comment is empty, when the executor answers with return
  code 1 and output "boom"; \<open>generate_ticket\<close> even records a change. (\<open>request_cert\<close>
  and \<open>node_setup\<close> report the failure: \<open>request_cert_failed\<close>, \<open>node_setup_failed\<close>.)
\<close>

theorem executor_failure_unreported:
  "fst (generate_cert ''node1'' (stub_env False 1 ''boom'') world0)
     = Inr \<lparr>name = ''node1'', changes = [], result = Some True, comment = []\<rparr>
   \<and> fst (save_cert ''node1'' ''master1'' (stub_env False 1 ''boom'') world0)
     = Inr \<lparr>name = ''node1'', changes = [], result = Some True, comment = []\<rparr>
   \<and> fst (generate_ticket ''node1'' None None None True None (stub_env False 1 ''boom'') world0)
     = Inr \<lparr>name = ''node1'', changes = [(''ticket'', ''Executed'')], result = Some True,
            comment = []\<rparr>"
  by (simp add: generate_cert_def save_cert_def generate_ticket_def ticket_execute_def
      collab_defs Let_def stub_defs)

subsection \<open>\<open>node_setup\<close> and the key file\<close>

text \<open>
  C9. Two minions whose files differ at most at \<open><certs_path><name>.key.orig\<close>, with
  an executor that answers the \<open>node_setup\<close> call alike on both: \<open>node_setup\<close> returns the
  same record on both. When \<open><certs_path><name>.crt.orig\<close> is a file, that record is the
  "No execution needed" one, whether the key file is there or not.
\<close>

theorem node_setup_ignores_key:
  assumes "files w2 = (files w1)(certs_path e @ nm @ ''.key.orig'' := x)"
    and "fst (executor e (Icinga2_node_setup nm parent ticket) (files w1))
           = fst (executor e (Icinga2_node_setup nm parent ticket) (files w2))"
  shows "fst (node_setup nm parent ticket e w1) = fst (node_setup nm parent ticket e w2)
         \<and> (files w1 (certs_path e @ nm @ ''.crt.orig'') \<noteq> None \<longrightarrow>
              fst (node_setup nm parent ticket e w2)
                = Inr \<lparr>name = nm, changes = [], result = Some True,
                       comment = ''No execution needed. Node already configured.''\<rparr>)"
proof -
  have "files w2 (certs_path e @ nm @ ''.crt.orig'') = files w1 (certs_path e @ nm @ ''.crt.orig'')"
    using assms(1) by simp
  then show ?thesis using assms(2)
    by (auto simp add: node_setup_def collab_defs Let_def split: prod.splits)
qed

theorem node_setup_ignores_key_witness:
  "files \<lparr>files = [''/pki/node1.crt.orig'' \<mapsto> ''c''], grains = Map.empty, trace = []\<rparr>
     = (files \<lparr>files = [''/pki/node1.crt.orig'' \<mapsto> ''c'', ''/pki/node1.key.orig'' \<mapsto> ''k''],
               grains = Map.empty, trace = []\<rparr>)
         (certs_path (stub_env False 0 ''ok'') @ ''node1'' @ ''.key.orig'' := None)
   \<and> fst (node_setup ''node1'' ''master1'' ''T1'' (stub_env False 0 ''ok'')
            \<lparr>files = [''/pki/node1.crt.orig'' \<mapsto> ''c'', ''/pki/node1.key.orig'' \<mapsto> ''k''],
             grains = Map.empty, trace = []\<rparr>)
     = Inr \<lparr>name = ''node1'', changes = [], result = Some True,
            comment = ''No execution needed. Node already configured.''\<rparr>
   \<and> fst (node_setup ''node1'' ''master1'' ''T1'' (stub_env False 0 ''ok'')
            \<lparr>files = [''/pki/node1.crt.orig'' \<mapsto> ''c''], grains = Map.empty, trace = []\<rparr>)
     = Inr \<lparr>name = ''node1'', changes = [], result = Some True,
            comment = ''No execution needed. Node already configured.''\<rparr>"
proof -
  let ?e = "stub_env False 0 ''ok''"
  let ?w1 = "\<lparr>files = [''/pki/node1.crt.orig'' \<mapsto> ''c'', ''/pki/node1.key.orig'' \<mapsto> ''k''],
              grains = Map.empty, trace = []\<rparr>"
  let ?w2 = "\<lparr>files = [''/pki/node1.crt.orig'' \<mapsto> ''c''], grains = Map.empty, trace = []\<rparr>"
  have h1: "files ?w2 = (files ?w1)(certs_path ?e @ ''node1'' @ ''.key.orig'' := None)"
    by (auto simp add: stub_defs fun_eq_iff)
  have h2: "fst (executor ?e (Icinga2_node_setup ''node1'' ''master1'' ''T1'') (files ?w1))
              = fst (executor ?e (Icinga2_node_setup ''node1'' ''master1'' ''T1'') (files ?w2))"
    by (simp add: stub_defs)
  have h3: "files ?w1 (certs_path ?e @ ''node1'' @ ''.crt.orig'') \<noteq> None"
    by (simp add: stub_defs)
  show ?thesis
    using h1 h3 node_setup_ignores_key [OF h1 h2] by simp
qed

end
